theory Spec2Isabelle
  imports Main "HOL-Library.Word" "HOL-Library.List_Lexorder" "HOL-Library.Multiset"
begin

section \<open>Strings and values of the host language\<close>

text \<open>
  A JavaScript string is a sequence of UTF-16 code units: \<open>length\<close> counts code units
  and \<open><\<close> on two strings compares them code unit by code unit, a proper prefix
  being smaller. The lexicographic order of \<open>HOL-Library.List_Lexorder\<close> on lists of
  16-bit words is that order.
\<close>

type_synonym jsstring = "16 word list"

definition lit :: "string \<Rightarrow> jsstring" where
  "lit s = map of_char s"

text \<open>\<open>s.repeat(n)\<close> for a count known to be a non-negative constant.\<close>

definition rep :: "nat \<Rightarrow> jsstring \<Rightarrow> jsstring" where
  "rep n s = concat (replicate n s)"

datatype error = TypeError | RangeError

text \<open>\<open>s.repeat(count)\<close> in general: a negative count raises a RangeError.\<close>

definition js_repeat :: "jsstring \<Rightarrow> int \<Rightarrow> error + jsstring" where
  "js_repeat s n = (if n < 0 then Inl RangeError else Inr (rep (nat n) s))"

text \<open>\<open>s.slice(0, n)\<close> for a non-negative constant \<open>n\<close>.\<close>

definition slice0 :: "jsstring \<Rightarrow> nat \<Rightarrow> jsstring" where
  "slice0 s n = take n s"

text \<open>The decimal text of a non-negative integer, as a template literal prints it.\<close>

fun digits :: "nat \<Rightarrow> jsstring" where
  "digits n = (if n < 10 then [48 + of_nat n] else digits (n div 10) @ [48 + of_nat (n mod 10)])"

declare digits.simps [simp del]

section \<open>The data model of a report\<close>

datatype severity = NONE | LOW | MEDIUM | HIGH | CRITICAL

record failure =
  group :: jsstring
  severity :: severity

record license_info =
  title :: jsstring
  pass :: bool

text \<open>
  \<open>license\<close> and \<open>failures\<close> may be absent on a record (\<open>undefined\<close> or \<open>null\<close>),
  which is \<open>None\<close> here.
\<close>

record pkg =
  name :: jsstring
  version :: jsstring
  published :: bool
  license :: "license_info option"
  failures :: "failure list option"
  maxSeverity :: int

section \<open>Constants of the module\<close>

definition SEVERITY_RMAP :: "severity list" where
  "SEVERITY_RMAP = [NONE, LOW, MEDIUM, HIGH, CRITICAL]"

definition W :: "int list" where
  "W = [40, 12, 23, 15]"

text \<open>The keys of the palette \<open>COLORS\<close> of the style module that this file uses.\<close>

datatype color = Red | Orange | Yellow | Light1 | Base | Green

fun SEVERITY_COLOR :: "severity \<Rightarrow> color" where
  "SEVERITY_COLOR CRITICAL = Red"
| "SEVERITY_COLOR HIGH = Orange"
| "SEVERITY_COLOR MEDIUM = Yellow"
| "SEVERITY_COLOR LOW = Light1"
| "SEVERITY_COLOR NONE = Base"

section \<open>Sorting\<close>

text \<open>
  The comparator handed to \<open>report.sort\<close>. It has no \<open>return\<close> for two records of equal
  severity and equal name: the result is \<open>undefined\<close>, which is \<open>None\<close> here.
\<close>

definition moduleCompare :: "pkg \<Rightarrow> pkg \<Rightarrow> int option" where
  "moduleCompare a b =
     (if maxSeverity a > maxSeverity b then Some (- 1)
      else if maxSeverity b > maxSeverity a then Some 1
      else if maxSeverity a = maxSeverity b then
        (if name a < name b then Some (- 1)
         else if name b < name a then Some 1
         else None)
      else None)"

text \<open>
  \<open>Array.prototype.sort\<close> reads the comparator through \<open>SortCompare\<close>: an \<open>undefined\<close>
  result becomes \<open>NaN\<close> and counts as \<open>+0\<close>. The sort is stable (ECMAScript 2019), and is
  modelled by a stable insertion sort: an element goes in front of the first element
  that it does not compare greater than.
\<close>

definition SortCompare :: "('a \<Rightarrow> 'a \<Rightarrow> int option) \<Rightarrow> 'a \<Rightarrow> 'a \<Rightarrow> int" where
  "SortCompare comparefn x y = (case comparefn x y of None \<Rightarrow> 0 | Some v \<Rightarrow> v)"

fun sort_insert :: "('a \<Rightarrow> 'a \<Rightarrow> int option) \<Rightarrow> 'a \<Rightarrow> 'a list \<Rightarrow> 'a list" where
  "sort_insert comparefn x [] = [x]"
| "sort_insert comparefn x (y # ys) =
     (if SortCompare comparefn x y \<le> 0 then x # y # ys
      else y # sort_insert comparefn x ys)"

definition Array_sort :: "('a \<Rightarrow> 'a \<Rightarrow> int option) \<Rightarrow> 'a list \<Rightarrow> 'a list" where
  "Array_sort comparefn xs = foldr (sort_insert comparefn) xs []"

text \<open>
  Arrays are objects: a report is held in a store and passed by reference.
  \<open>moduleSort\<close> sorts the array behind the reference and returns the reference.
\<close>

type_synonym ref = nat
type_synonym store = "ref \<Rightarrow> pkg list"

definition moduleSort :: "store \<Rightarrow> ref \<Rightarrow> store \<times> ref" where
  "moduleSort st report = (st(report := Array_sort moduleCompare (st report)), report)"

text \<open>The order that the comparator decides: worse severity first, then the smaller name.\<close>

definition before_eq :: "pkg \<Rightarrow> pkg \<Rightarrow> bool" where
  "before_eq a b \<longleftrightarrow>
     maxSeverity a > maxSeverity b \<or> (maxSeverity a = maxSeverity b \<and> name a \<le> name b)"

section \<open>Styling\<close>

text \<open>
  The template tag \<open>chalk\<close> of the styling library renders a block \<open>{style text}\<close> as
  the text in that style; the one blank after the style separates the two and is not
  printed. The library is not part of this module, so the renderer of a block is a
  parameter of everything that prints.
\<close>

type_synonym styler = "color \<Rightarrow> jsstring \<Rightarrow> jsstring"

text \<open>Two renderers: colours switched off, and SGR escape sequences around the text.\<close>

definition chalk_plain :: styler where
  "chalk_plain c s = s"

definition chalk_ansi :: "(color \<Rightarrow> jsstring) \<Rightarrow> styler" where
  "chalk_ansi sgr c s =
     (if s = [] then []
      else [0x1B, 0x5B] @ sgr c @ lit ''m'' @ s @ [0x1B, 0x5B] @ lit ''39m'')"

text \<open>
  The tag parses the whole template, the interpolated strings included, and prints what
  its parser matches. The parser matches every code unit but the two separators U+2028
  and U+2029, so an interpolated string is printed without them.
\<close>

definition template_arg :: "jsstring \<Rightarrow> jsstring" where
  "template_arg s = filter (\<lambda>c. c \<noteq> 0x2028 \<and> c \<noteq> 0x2029) s"

section \<open>Severity meter and label\<close>

fun indexOf_from :: "'a list \<Rightarrow> 'a \<Rightarrow> int \<Rightarrow> int" where
  "indexOf_from [] x i = - 1"
| "indexOf_from (y # ys) x i = (if y = x then i else indexOf_from ys x (i + 1))"

definition indexOf :: "'a list \<Rightarrow> 'a \<Rightarrow> int" where
  "indexOf xs x = indexOf_from xs x 0"

text \<open>\<open>severityMeter\<close> joins its two blocks: it returns one string.\<close>

definition severityMeter :: "styler \<Rightarrow> severity \<Rightarrow> error + jsstring" where
  "severityMeter chalk sev =
     (let risk = indexOf SEVERITY_RMAP sev in
      case js_repeat (lit ''|'') risk of
        Inl e \<Rightarrow> Inl e
      | Inr filled \<Rightarrow>
          (case js_repeat (lit ''|'') (4 - risk) of
             Inl e \<Rightarrow> Inl e
           | Inr rest \<Rightarrow> Inr (chalk (SEVERITY_COLOR sev) filled @ chalk Base rest)))"

fun severityLabel :: "severity \<Rightarrow> jsstring" where
  "severityLabel CRITICAL = lit ''Crit''"
| "severityLabel HIGH = lit ''High''"
| "severityLabel MEDIUM = lit ''Med ''"
| "severityLabel LOW = lit ''Low ''"
| "severityLabel NONE = lit ''None''"

definition severityTextLabel :: "styler \<Rightarrow> severity \<Rightarrow> jsstring" where
  "severityTextLabel chalk sev =
     chalk (if sev = NONE then Base else Light1) (severityLabel sev)"

text \<open>
  \<open>s[i]\<close> on a string is the string of the one code unit at \<open>i\<close>, or \<open>undefined\<close>
  (\<open>None\<close>) beyond the end. \<open>a + b\<close> on two such values, the sum then being joined to a
  string: \<open>undefined\<close> prints as such beside a string, and two \<open>undefined\<close> add up to
  \<open>NaN\<close>.
\<close>

definition js_at :: "jsstring \<Rightarrow> nat \<Rightarrow> jsstring option" where
  "js_at s i = (if i < length s then Some [s ! i] else None)"

fun js_plus :: "jsstring option \<Rightarrow> jsstring option \<Rightarrow> jsstring" where
  "js_plus (Some a) (Some b) = a @ b"
| "js_plus (Some a) None = a @ lit ''undefined''"
| "js_plus None (Some b) = lit ''undefined'' @ b"
| "js_plus None None = lit ''NaN''"

text \<open>\<open>SEVERITY_RMAP[i]\<close>: \<open>undefined\<close> outside the array.\<close>

definition rmap_at :: "int \<Rightarrow> severity option" where
  "rmap_at i = (if 0 \<le> i \<and> i < int (length SEVERITY_RMAP) then Some (SEVERITY_RMAP ! nat i) else None)"

text \<open>
  The risk badge of a row. The name of an absent severity has no \<open>toUpperCase\<close>: a
  TypeError. The meter is read at its indices 0 and 1.
\<close>

definition riskBadge :: "styler \<Rightarrow> int \<Rightarrow> error + jsstring" where
  "riskBadge chalk m =
     (case rmap_at m of
        None \<Rightarrow> Inl TypeError
      | Some sev \<Rightarrow>
          (case severityMeter chalk sev of
             Inl e \<Rightarrow> Inl e
           | Inr meter \<Rightarrow>
               (let riskMeter = js_plus (js_at meter 0) (js_at meter 1);
                    riskLabel = severityTextLabel chalk sev
                in Inr (riskMeter @ riskLabel))))"

section \<open>The cells of a row\<close>

definition bar :: "styler \<Rightarrow> jsstring" where
  "bar chalk = chalk Light1 [0x2502]"

definition moduleName :: "pkg \<Rightarrow> jsstring" where
  "moduleName p =
     (let label = name p @ lit '' @ '' @ version p in
      if int (length label) > W ! 0
      then slice0 (name p) (nat (W ! 0 - 14)) @ lit ''... @ '' @ version p
      else label)"

definition nameCell :: "styler \<Rightarrow> jsstring \<Rightarrow> error + jsstring" where
  "nameCell chalk label =
     (case js_repeat (lit '' '') (W ! 0 - int (length label)) of
        Inl e \<Rightarrow> Inl e
      | Inr pad \<Rightarrow>
          Inr (bar chalk @ lit '' '' @ template_arg label @ lit '' '' @ pad @ bar chalk
               @ lit '' ''))"

definition riskCell :: "styler \<Rightarrow> jsstring \<Rightarrow> jsstring" where
  "riskCell chalk badge = badge @ rep (nat (W ! 1 - 10)) (lit '' '') @ bar chalk @ lit '' ''"

text \<open>The licence: the last chunk of the title after \<open>:\<close>, trimmed, cut to the column.\<close>

fun split_on :: "'a \<Rightarrow> 'a list \<Rightarrow> 'a list list" where
  "split_on c [] = [[]]"
| "split_on c (x # xs) =
     (if x = c then [] # split_on c xs
      else (case split_on c xs of [] \<Rightarrow> [[x]] | y # ys \<Rightarrow> (x # y) # ys))"

definition is_space :: "16 word \<Rightarrow> bool" where
  "is_space c \<longleftrightarrow>
     c \<in> {0x09, 0x0A, 0x0B, 0x0C, 0x0D, 0x20, 0xA0, 0x1680, 0x2028, 0x2029, 0x202F,
          0x205F, 0x3000, 0xFEFF} \<or> (0x2000 \<le> c \<and> c \<le> 0x200A)"

definition trim :: "jsstring \<Rightarrow> jsstring" where
  "trim s = rev (dropWhile is_space (rev (dropWhile is_space s)))"

definition licenseText :: "jsstring \<Rightarrow> jsstring" where
  "licenseText t =
     (let chunked = split_on 0x3A t;
          lic = trim (last chunked)
      in if int (length lic) + 3 > W ! 2
         then slice0 lic (nat (W ! 2 - 4)) @ [0x2026]
         else lic)"

definition licenseBadge :: "styler \<Rightarrow> license_info \<Rightarrow> jsstring" where
  "licenseBadge chalk l = (if pass l then chalk Green [0x2713] else chalk Red (lit ''X''))"

definition licenseCell :: "styler \<Rightarrow> jsstring \<Rightarrow> jsstring \<Rightarrow> error + jsstring" where
  "licenseCell chalk badge lic =
     (case js_repeat (lit '' '') (W ! 2 - int (length lic) - 3) of
        Inl e \<Rightarrow> Inl e
      | Inr pad \<Rightarrow> Inr (badge @ lit '' '' @ template_arg lic @ pad @ bar chalk @ lit '' ''))"

text \<open>The security badges: the loop over the failures fills \<open>vulns\<close>.\<close>

definition count_step :: "nat list \<Rightarrow> failure \<Rightarrow> nat list" where
  "count_step vulns f =
     (if group f = lit ''security'' then
        (let v3 = (if severity f = CRITICAL then vulns[3 := vulns ! 3 + 1] else vulns);
             v2 = (if severity f = HIGH then v3[2 := v3 ! 2 + 1] else v3);
             v1 = (if severity f = MEDIUM then v2[1 := v2 ! 1 + 1] else v2);
             v0 = (if severity f = LOW then v1[0 := v1 ! 0 + 1] else v1)
         in v0)
      else vulns)"

definition count_vulns :: "failure list \<Rightarrow> nat list" where
  "count_vulns fs = foldl count_step [0, 0, 0, 0] fs"

definition securityBadges :: "styler \<Rightarrow> nat list \<Rightarrow> jsstring list" where
  "securityBadges chalk vulns =
     [if foldl (\<lambda>a b. a + b) 0 vulns = 0
        then chalk Green [0x2713] @ lit '' 0'' else chalk Red (lit ''X'') @ lit '' '',
      if vulns ! 3 > 0 then chalk Red (digits (vulns ! 3) @ lit ''C'') @ lit '' '' else [],
      if vulns ! 2 > 0 then chalk Orange (digits (vulns ! 2) @ lit ''H'') @ lit '' '' else [],
      if vulns ! 1 > 0 then chalk Yellow (digits (vulns ! 1) @ lit ''M'') @ lit '' '' else [],
      if vulns ! 0 > 0 then chalk Light1 (digits (vulns ! 0) @ lit ''L'') @ lit '' '' else []]"

definition securityCell :: "styler \<Rightarrow> jsstring list \<Rightarrow> error + jsstring" where
  "securityCell chalk badges =
     (case js_repeat (lit '' '')
             (W ! 3 - 2 - int (length (filter (\<lambda>x. x \<noteq> []) badges)) * 2) of
        Inl e \<Rightarrow> Inl e
      | Inr pad \<Rightarrow> Inr (concat badges @ pad @ bar chalk))"

section \<open>Rows and the table\<close>

text \<open>
  One pass of the \<open>forEach\<close> body up to its call of the printer: the line of the row,
  or the exception that the body raises before anything is printed. A published record
  reads \<open>license.title\<close>, iterates \<open>failures\<close> and looks \<open>maxSeverity\<close> up, each a
  TypeError when the value is absent; the padding of the name raises a RangeError when
  the label is longer than the column.
\<close>

definition moduleRow :: "styler \<Rightarrow> pkg \<Rightarrow> error + jsstring" where
  "moduleRow chalk p =
     (let label = moduleName p in
      if published p then
        (case license p of
           None \<Rightarrow> Inl TypeError
         | Some l \<Rightarrow>
             (let lic = licenseText (title l);
                  lbadge = licenseBadge chalk l
              in case failures p of
                   None \<Rightarrow> Inl TypeError
                 | Some fs \<Rightarrow>
                     (let badges = securityBadges chalk (count_vulns fs) in
                      case riskBadge chalk (maxSeverity p) of
                        Inl e \<Rightarrow> Inl e
                      | Inr rb \<Rightarrow>
                          (case nameCell chalk label of
                             Inl e \<Rightarrow> Inl e
                           | Inr c0 \<Rightarrow>
                               (case licenseCell chalk lbadge lic of
                                  Inl e \<Rightarrow> Inl e
                                | Inr c2 \<Rightarrow>
                                    (case securityCell chalk badges of
                                       Inl e \<Rightarrow> Inl e
                                     | Inr c3 \<Rightarrow> Inr (c0 @ riskCell chalk rb @ c2 @ c3)))))))
      else
        (case nameCell chalk label of
           Inl e \<Rightarrow> Inl e
         | Inr c0 \<Rightarrow>
             Inr (c0 @ rep (nat (W ! 1 - 1)) (lit '' '') @ bar chalk
                     @ rep (nat (W ! 2)) (lit '' '') @ bar chalk
                     @ rep (nat (W ! 3)) (lit '' '') @ bar chalk)))"

definition header :: "styler \<Rightarrow> jsstring" where
  "header chalk =
     chalk Light1
       (lit ''  Module Name'' @ rep (nat (W ! 0 - 9)) (lit '' '')
        @ lit ''Risk'' @ rep (nat (W ! 1 - 3)) (lit '' '')
        @ lit ''License'' @ rep (nat (W ! 2 - 6)) (lit '' '')
        @ lit ''Security'')"

text \<open>A horizontal rule with its left corner, its joints and its right corner.\<close>

definition rule_line :: "styler \<Rightarrow> 16 word \<Rightarrow> 16 word \<Rightarrow> 16 word \<Rightarrow> jsstring" where
  "rule_line chalk l m r =
     chalk Light1
       ([l, 0x2500, 0x2500] @ rep (nat (W ! 0)) [0x2500] @ [m] @ rep (nat (W ! 1)) [0x2500]
        @ [m] @ rep (nat (W ! 2)) [0x2500] @ [m] @ rep (nat (W ! 3)) [0x2500] @ [r])"

definition topBorder :: "styler \<Rightarrow> jsstring" where
  "topBorder chalk = rule_line chalk 0x250C 0x252C 0x2510"

definition bottomBorder :: "styler \<Rightarrow> jsstring" where
  "bottomBorder chalk = rule_line chalk 0x2514 0x2534 0x2518"

definition dividerLine :: "styler \<Rightarrow> jsstring" where
  "dividerLine chalk = rule_line chalk 0x251C 0x253C 0x2524"

text \<open>
  The \<open>forEach\<close> over the sorted report, \<open>n\<close> being its length and \<open>ind\<close> the index of the
  next record: the lines printed, and the exception that ended the loop, if any.
\<close>

fun forEach_rows ::
  "styler \<Rightarrow> bool \<Rightarrow> nat \<Rightarrow> nat \<Rightarrow> pkg list \<Rightarrow> jsstring list \<times> error option" where
  "forEach_rows chalk dividers n ind [] = ([], None)"
| "forEach_rows chalk dividers n ind (p # ps) =
     (case moduleRow chalk p of
        Inl e \<Rightarrow> ([], Some e)
      | Inr row \<Rightarrow>
          (let rest = forEach_rows chalk dividers n (Suc ind) ps;
               closing = (if int ind = int n - 1 then [bottomBorder chalk]
                          else if dividers then [dividerLine chalk] else [])
           in (row # closing @ fst rest, snd rest)))"

definition moduleList ::
  "styler \<Rightarrow> store \<Rightarrow> ref \<Rightarrow> bool \<Rightarrow> store \<times> jsstring list \<times> error option" where
  "moduleList chalk st report dividers =
     (let (st1, r) = moduleSort st report;
          body = forEach_rows chalk dividers (length (st1 r)) 0 (st1 r)
      in (st1, header chalk # topBorder chalk # fst body, snd body))"

section \<open>The vulnerability summary\<close>

text \<open>
  \<open>netSecurity\<close>: four counters and the set of affected names, a \<open>Set\<close>, kept as the list
  of its members in insertion order.
\<close>

record netSecurity =
  n_LOW :: nat
  n_MEDIUM :: nat
  n_HIGH :: nat
  n_CRITICAL :: nat
  AFFECTED :: "jsstring list"

definition Set_add :: "'a \<Rightarrow> 'a list \<Rightarrow> 'a list" where
  "Set_add x xs = (if x \<in> set xs then xs else xs @ [x])"

text \<open>
  \<open>netSecurity[severity]++\<close>. For \<open>NONE\<close> the object has no counter: the statement
  stores \<open>NaN\<close> under a key that nothing reads, and the four counters stay.
\<close>

fun increment :: "netSecurity \<Rightarrow> severity \<Rightarrow> netSecurity" where
  "increment ns LOW = ns\<lparr>n_LOW := n_LOW ns + 1\<rparr>"
| "increment ns MEDIUM = ns\<lparr>n_MEDIUM := n_MEDIUM ns + 1\<rparr>"
| "increment ns HIGH = ns\<lparr>n_HIGH := n_HIGH ns + 1\<rparr>"
| "increment ns CRITICAL = ns\<lparr>n_CRITICAL := n_CRITICAL ns + 1\<rparr>"
| "increment ns NONE = ns"

definition tally_failure :: "jsstring \<Rightarrow> netSecurity \<Rightarrow> failure \<Rightarrow> netSecurity" where
  "tally_failure pname ns f =
     (if group f = lit ''security''
      then (increment ns (severity f))\<lparr>AFFECTED := Set_add pname (AFFECTED (increment ns (severity f)))\<rparr>
      else ns)"

text \<open>
  \<open>for (const x of v)\<close> raises a TypeError when \<open>v\<close> is \<open>undefined\<close> or \<open>null\<close>, which
  are not iterable. \<open>v || []\<close> is \<open>v\<close> when it is an array, empty or not, and the empty
  array when it is absent.
\<close>

definition iterate :: "'a list option \<Rightarrow> error + 'a list" where
  "iterate v = (case v of None \<Rightarrow> Inl TypeError | Some xs \<Rightarrow> Inr xs)"

definition or_empty :: "'a list option \<Rightarrow> 'a list option" where
  "or_empty v = (case v of None \<Rightarrow> Some [] | Some xs \<Rightarrow> Some xs)"

text \<open>The inner loop, over \<open>pkg.failures || []\<close>, and the outer loop over the report.\<close>

definition tally_pkg :: "netSecurity \<Rightarrow> pkg \<Rightarrow> error + netSecurity" where
  "tally_pkg ns p =
     (case iterate (or_empty (failures p)) of
        Inl e \<Rightarrow> Inl e
      | Inr fs \<Rightarrow> Inr (foldl (tally_failure (name p)) ns fs))"

fun tally_from :: "netSecurity \<Rightarrow> pkg list \<Rightarrow> error + netSecurity" where
  "tally_from ns [] = Inr ns"
| "tally_from ns (p # ps) =
     (case tally_pkg ns p of Inl e \<Rightarrow> Inl e | Inr ns' \<Rightarrow> tally_from ns' ps)"

definition tally :: "pkg list \<Rightarrow> error + netSecurity" where
  "tally report =
     tally_from \<lparr>n_LOW = 0, n_MEDIUM = 0, n_HIGH = 0, n_CRITICAL = 0, AFFECTED = []\<rparr> report"

definition vulnerabilityCount :: "netSecurity \<Rightarrow> nat" where
  "vulnerabilityCount ns = n_CRITICAL ns + n_HIGH ns + n_MEDIUM ns + n_LOW ns"

definition headline :: "styler \<Rightarrow> netSecurity \<Rightarrow> jsstring" where
  "headline chalk ns =
     (let securityBadge = (if vulnerabilityCount ns > 0 then chalk Red (lit ''!'')
                           else chalk Green [0x2713])
      in if length (AFFECTED ns) > 0
         then lit ''  '' @ securityBadge @ lit '' '' @ digits (vulnerabilityCount ns)
              @ lit '' security vulnerabilities found across ''
              @ digits (length (AFFECTED ns)) @ lit '' modules''
         else lit ''  '' @ securityBadge @ lit '' '' @ digits (vulnerabilityCount ns)
              @ lit '' security vulnerabilities found'')"

definition severity_line :: "styler \<Rightarrow> color \<Rightarrow> string \<Rightarrow> nat \<Rightarrow> string \<Rightarrow> jsstring" where
  "severity_line chalk c letter n word =
     lit ''    '' @ chalk c (lit letter) @ lit '' '' @ digits n @ lit word"

text \<open>The lines printed, or the exception that the loops raise before any is printed.\<close>

definition shortVulnerabilityList :: "styler \<Rightarrow> pkg list \<Rightarrow> error + jsstring list" where
  "shortVulnerabilityList chalk report =
     (case tally report of
        Inl e \<Rightarrow> Inl e
      | Inr ns \<Rightarrow>
          Inr [headline chalk ns,
               severity_line chalk Red ''C'' (n_CRITICAL ns) '' critical severity'',
               severity_line chalk Orange ''H'' (n_HIGH ns) '' high severity'',
               severity_line chalk Yellow ''M'' (n_MEDIUM ns) '' medium severity'',
               severity_line chalk Light1 ''L'' (n_LOW ns) '' low severity''])"

section \<open>Writing the report file\<close>

text \<open>
  What \<open>outputReport\<close> reaches outside the module: \<open>process.cwd()\<close> (\<open>None\<close> when it
  throws, as it does when the working directory is gone), the clock in milliseconds, \<open>JSON.stringify\<close> (\<open>None\<close> when it throws, as on a cyclic
  value), \<open>path.join\<close>, whether writing a text to a path succeeds, and the box of the
  style module.
\<close>

record world =
  cwd :: "jsstring option"
  now :: int
  stringify :: "pkg list \<Rightarrow> jsstring option"
  path_join :: "jsstring \<Rightarrow> jsstring \<Rightarrow> jsstring"
  writeFile :: "jsstring \<Rightarrow> jsstring \<Rightarrow> bool"
  boxbox :: "jsstring \<Rightarrow> jsstring \<Rightarrow> color \<Rightarrow> jsstring"

datatype dir_arg = DirString jsstring | NotAString

datatype effect = FileWritten jsstring jsstring | Logged jsstring | HandledError jsstring

datatype settled = Resolved | Rejected

definition show_int :: "int \<Rightarrow> jsstring" where
  "show_int i = (if i < 0 then lit ''-'' @ digits (nat (- i)) else digits (nat i))"

text \<open>
  Modelled from the spec: \<open>handleError\<close> of \<open>../util\<close> is not among the sources. The
  failure is reported as a tool-level error under the given signal and is not thrown
  further: the call records the signal and returns.
\<close>

definition handleError :: "jsstring \<Rightarrow> effect list" where
  "handleError signal = [HandledError signal]"

definition reportFileName :: "int \<Rightarrow> jsstring" where
  "reportFileName timestamp = lit ''ncm-score-report-'' @ show_int timestamp @ lit ''.json''"

text \<open>The \<open>try\<close> block: its effects, and whether it ended in an exception.\<close>

definition try_block :: "world \<Rightarrow> pkg list \<Rightarrow> jsstring \<Rightarrow> effect list \<times> bool" where
  "try_block w report dir =
     (case stringify w report of
        None \<Rightarrow> ([], True)
      | Some json \<Rightarrow>
          (let timestamp = now w;
               reportFile = path_join w dir (reportFileName timestamp)
           in if writeFile w reportFile json
              then ([FileWritten reportFile json,
                     Logged (boxbox w [0x2713]
                               (lit ''Report successfully written to: '' @ reportFile) Green)],
                    False)
              else ([], True)))"

text \<open>
  The \<open>async\<close> function: a promise that resolves when the body returns and rejects when
  an exception leaves it. The directory is settled before the \<open>try\<close> block: when the
  argument is not a string \<open>process.cwd()\<close> is called, and its exception leaves the
  function. Every exception of the \<open>try\<close> block is caught.
\<close>

definition outputReport :: "world \<Rightarrow> pkg list \<Rightarrow> dir_arg \<Rightarrow> effect list \<times> settled" where
  "outputReport w report dir =
     (case (case dir of DirString s \<Rightarrow> Some s | NotAString \<Rightarrow> cwd w) of
        None \<Rightarrow> ([], Rejected)
      | Some d \<Rightarrow>
          (let (effects, thrown) = try_block w report d
           in if thrown
              then (effects @ handleError (lit ''Tools::UnableToFormatOutput''), Resolved)
              else (effects, Resolved)))"

section \<open>Sample records\<close>

definition security :: "severity \<Rightarrow> failure" where
  "security s = \<lparr>group = lit ''security'', severity = s\<rparr>"

definition example_P1 :: pkg where
  "example_P1 =
     \<lparr>name = lit ''p1'', version = lit ''1.0.0'', published = True,
      license = Some \<lparr>title = lit ''SPDX:MIT'', pass = True\<rparr>,
      failures = Some [security HIGH, security HIGH, security LOW], maxSeverity = 3\<rparr>"

definition example_P2 :: pkg where
  "example_P2 =
     \<lparr>name = lit ''p2'', version = lit ''2.0.0'', published = False, license = None,
      failures = Some [security CRITICAL], maxSeverity = 4\<rparr>"

definition example_P3 :: pkg where
  "example_P3 =
     \<lparr>name = lit ''a1'', version = lit ''0.3.0'', published = True,
      license = Some \<lparr>title = lit ''MIT'', pass = False\<rparr>,
      failures = Some [], maxSeverity = 3\<rparr>"

section \<open>What the summary is compared with\<close>

text \<open>
  The failures of group \<open>security\<close> of a report, over all its records, whether
  published or not; those among them that one of the four counters counts; the number of
  them of one severity; and the names of the records that have at least one.
\<close>

definition is_security :: "failure \<Rightarrow> bool" where
  "is_security f \<longleftrightarrow> group f = lit ''security''"

definition security_failures :: "pkg list \<Rightarrow> failure list" where
  "security_failures report =
     concat (map (\<lambda>p. filter is_security (case failures p of None \<Rightarrow> [] | Some fs \<Rightarrow> fs)) report)"

definition count_severity :: "severity \<Rightarrow> pkg list \<Rightarrow> nat" where
  "count_severity s report = length (filter (\<lambda>f. severity f = s) (security_failures report))"

definition affected_names :: "pkg list \<Rightarrow> jsstring set" where
  "affected_names report = set (map name (filter (\<lambda>p. security_failures [p] \<noteq> []) report))"

definition counted_failures :: "pkg list \<Rightarrow> failure list" where
  "counted_failures report = filter (\<lambda>f. severity f \<noteq> NONE) (security_failures report)"

definition example_Q :: pkg where
  "example_Q =
     \<lparr>name = lit ''q'', version = lit ''0.1.0'', published = True,
      license = Some \<lparr>title = lit ''MIT'', pass = True\<rparr>,
      failures = Some [security NONE], maxSeverity = 0\<rparr>"

text \<open>
  The two loops without their error results, over the failures that are there: what
  the counting is proved about.
\<close>

definition summed_pkg :: "netSecurity \<Rightarrow> pkg \<Rightarrow> netSecurity" where
  "summed_pkg ns p =
     foldl (tally_failure (name p)) ns (case failures p of None \<Rightarrow> [] | Some fs \<Rightarrow> fs)"

definition summed :: "pkg list \<Rightarrow> netSecurity" where
  "summed report =
     foldl summed_pkg \<lparr>n_LOW = 0, n_MEDIUM = 0, n_HIGH = 0, n_CRITICAL = 0, AFFECTED = []\<rparr> report"

text \<open>
  The five lines of the summary of a report as the specification words them: the
  headline with the total and, when positive, the number of affected modules, then the
  lines of CRITICAL, HIGH, MEDIUM and LOW with their counts.
\<close>

definition summary_of :: "styler \<Rightarrow> pkg list \<Rightarrow> jsstring list" where
  "summary_of chalk report =
     [lit ''  ''
        @ (if 0 < length (counted_failures report) then chalk Red (lit ''!'')
           else chalk Green [0x2713])
        @ lit '' '' @ digits (length (counted_failures report))
        @ lit '' security vulnerabilities found''
        @ (if 0 < card (affected_names report)
           then lit '' across '' @ digits (card (affected_names report)) @ lit '' modules''
           else []),
      lit ''    '' @ chalk Red (lit ''C'') @ lit '' ''
        @ digits (count_severity CRITICAL report) @ lit '' critical severity'',
      lit ''    '' @ chalk Orange (lit ''H'') @ lit '' ''
        @ digits (count_severity HIGH report) @ lit '' high severity'',
      lit ''    '' @ chalk Yellow (lit ''M'') @ lit '' ''
        @ digits (count_severity MEDIUM report) @ lit '' medium severity'',
      lit ''    '' @ chalk Light1 (lit ''L'') @ lit '' ''
        @ digits (count_severity LOW report) @ lit '' low severity'']"

text \<open>The counter of a severity in \<open>netSecurity\<close>; \<open>NONE\<close> has none.\<close>

fun counter :: "severity \<Rightarrow> netSecurity \<Rightarrow> nat" where
  "counter LOW ns = n_LOW ns"
| "counter MEDIUM ns = n_MEDIUM ns"
| "counter HIGH ns = n_HIGH ns"
| "counter CRITICAL ns = n_CRITICAL ns"
| "counter NONE ns = 0"

section \<open>What the cells are compared with\<close>

text \<open>The number of security failures of one severity among the failures of a record.\<close>

definition bucket :: "severity \<Rightarrow> failure list \<Rightarrow> nat" where
  "bucket s fs = length (filter (\<lambda>f. severity f = s) (filter is_security fs))"

text \<open>
  The Security cell as the specification words it: the aggregate glyph, then one badge
  of count and letter for each of CRITICAL, HIGH, MEDIUM, LOW, in that order, whose count
  is positive, then the padding and the border.
\<close>

definition badge_table :: "(severity \<times> color \<times> string) list" where
  "badge_table = [(CRITICAL, Red, ''C''), (HIGH, Orange, ''H''), (MEDIUM, Yellow, ''M''),
                  (LOW, Light1, ''L'')]"

definition aggregate_glyph :: "styler \<Rightarrow> failure list \<Rightarrow> jsstring" where
  "aggregate_glyph chalk fs =
     (if bucket CRITICAL fs + bucket HIGH fs + bucket MEDIUM fs + bucket LOW fs = 0
      then chalk Green [0x2713] @ lit '' 0''
      else chalk Red (lit ''X'') @ lit '' '')"

definition shown_badges :: "failure list \<Rightarrow> (severity \<times> color \<times> string) list" where
  "shown_badges fs = filter (\<lambda>(s, c, l). 0 < bucket s fs) badge_table"

definition badge_text :: "styler \<Rightarrow> failure list \<Rightarrow> severity \<times> color \<times> string \<Rightarrow> jsstring" where
  "badge_text chalk fs = (\<lambda>(s, c, l). chalk c (digits (bucket s fs) @ lit l) @ lit '' '')"

definition security_text :: "styler \<Rightarrow> failure list \<Rightarrow> jsstring" where
  "security_text chalk fs =
     aggregate_glyph chalk fs @ concat (map (badge_text chalk fs) (shown_badges fs))
     @ rep (11 - 2 * length (shown_badges fs)) (lit '' '') @ bar chalk"

text \<open>The three cells of an unpublished record: blanks up to each border.\<close>

definition blank_cells :: "styler \<Rightarrow> jsstring" where
  "blank_cells chalk =
     rep 11 (lit '' '') @ bar chalk @ rep 23 (lit '' '') @ bar chalk
     @ rep 15 (lit '' '') @ bar chalk"

text \<open>
  The Module Name cell around a label that fits: borders, blanks, the label as the
  template prints it, and the padding, counted on the label as it is.
\<close>

definition name_text :: "styler \<Rightarrow> jsstring \<Rightarrow> jsstring" where
  "name_text chalk label =
     bar chalk @ lit '' '' @ template_arg label @ lit '' ''
     @ rep (40 - length label) (lit '' '') @ bar chalk @ lit '' ''"

definition example_long_name :: pkg where
  "example_long_name =
     \<lparr>name = lit ''@babel/plugin-proposal-class-properties'', version = lit ''7.5.5'',
      published = False, license = None, failures = None, maxSeverity = 0\<rparr>"

definition example_long_version :: pkg where
  "example_long_version =
     \<lparr>name = lit ''@babel/plugin-proposal-class-properties'', version = lit ''7.0.0-beta.42'',
      published = False, license = None, failures = None, maxSeverity = 0\<rparr>"

definition example_long_published :: pkg where
  "example_long_published =
     \<lparr>name = lit ''@babel/plugin-proposal-class-properties'', version = lit ''7.0.0-beta.42'',
      published = True, license = Some \<lparr>title = lit ''MIT'', pass = True\<rparr>,
      failures = Some [security HIGH, security HIGH, security LOW], maxSeverity = 3\<rparr>"

text \<open>The rows of three sample records, colours off.\<close>

definition example_P1_row :: jsstring where
  "example_P1_row =
     [0x2502] @ lit '' p1 @ 1.0.0 '' @ rep 30 (lit '' '') @ [0x2502]
     @ lit '' ||High  '' @ [0x2502]
     @ lit '' '' @ [0x2713] @ lit '' MIT'' @ rep 17 (lit '' '') @ [0x2502]
     @ lit '' X 2H 1L '' @ rep 7 (lit '' '') @ [0x2502]"


definition example_long_name_row :: jsstring where
  "example_long_name_row =
     [0x2502] @ lit '' @babel/plugin-proposal-cla... @ 7.5.5 '' @ rep 3 (lit '' '')
     @ [0x2502] @ lit '' ''
     @ rep 11 (lit '' '') @ [0x2502] @ rep 23 (lit '' '') @ [0x2502]
     @ rep 15 (lit '' '') @ [0x2502]"


text \<open>The position of a severity in the ranking.\<close>

fun ordinal :: "severity \<Rightarrow> nat" where
  "ordinal NONE = 0"
| "ordinal LOW = 1"
| "ordinal MEDIUM = 2"
| "ordinal HIGH = 3"
| "ordinal CRITICAL = 4"

text \<open>
  The meter as \<open>severityMeter\<close> builds it: four slots, as many as the ordinal in the
  colour of the severity, the others in the base colour.
\<close>

definition meter_text :: "styler \<Rightarrow> severity \<Rightarrow> jsstring" where
  "meter_text chalk sev =
     chalk (SEVERITY_COLOR sev) (rep (ordinal sev) (lit ''|''))
     @ chalk Base (rep (4 - ordinal sev) (lit ''|''))"

text \<open>
  A sample world: the process runs in \<open>/work\<close>, the clock stands at a fixed millisecond,
  an empty report serialises to \<open>[]\<close> and nothing else serialises, paths are joined with
  a slash, and every write succeeds.
\<close>

definition example_world :: world where
  "example_world =
     \<lparr>cwd = Some (lit ''/work''), now = 1562112000000,
      stringify = (\<lambda>report. if report = [] then Some (lit ''[]'') else None),
      path_join = (\<lambda>d f. d @ lit ''/'' @ f),
      writeFile = (\<lambda>path content. True),
      boxbox = (\<lambda>glyph msg c. glyph @ lit '' '' @ msg)\<rparr>"

section \<open>Properties of sorting\<close>

lemma SortCompare_before_eq: "SortCompare moduleCompare a b \<le> 0 \<longleftrightarrow> before_eq a b"
  by (auto simp: SortCompare_def moduleCompare_def before_eq_def)

lemma before_eq_total: "\<not> before_eq a b \<Longrightarrow> before_eq b a"
  by (auto simp: before_eq_def)

lemma before_eq_trans: "before_eq a b \<Longrightarrow> before_eq b c \<Longrightarrow> before_eq a c"
  by (auto simp: before_eq_def)

lemma set_sort_insert: "set (sort_insert comparefn x ys) = insert x (set ys)"
  by (induction ys) auto

lemma mset_sort_insert: "mset (sort_insert comparefn x ys) = add_mset x (mset ys)"
  by (induction ys) auto

lemma mset_Array_sort: "mset (Array_sort comparefn xs) = mset xs"
  by (induction xs) (auto simp: Array_sort_def mset_sort_insert)

lemma length_Array_sort: "length (Array_sort comparefn xs) = length xs"
  using mset_Array_sort [of comparefn xs] by (metis size_mset)

lemma sorted_sort_insert:
  "sorted_wrt before_eq ys \<Longrightarrow> sorted_wrt before_eq (sort_insert moduleCompare x ys)"
proof (induction ys)
  case Nil
  show ?case by simp
next
  case (Cons y ys)
  show ?case
  proof (cases "before_eq x y")
    case True
    have "\<forall>z\<in>set ys. before_eq x z"
      using Cons.prems True before_eq_trans by auto
    with True Cons.prems show ?thesis
      by (simp add: SortCompare_before_eq)
  next
    case False
    then have "before_eq y x" by (rule before_eq_total)
    with False Cons show ?thesis
      by (auto simp: SortCompare_before_eq set_sort_insert)
  qed
qed

lemma sorted_Array_sort: "sorted_wrt before_eq (Array_sort moduleCompare xs)"
proof (induction xs)
  case Nil
  show ?case by (simp add: Array_sort_def)
next
  case (Cons x xs)
  then show ?case
    using sorted_sort_insert [of "Array_sort moduleCompare xs" x]
    by (simp add: Array_sort_def)
qed

text \<open>
  C1. After \<open>moduleSort\<close>, the array behind the returned reference is ordered: at every
  adjacent pair of positions the severity does not increase, and where the two
  severities are equal the name does not decrease.
\<close>

theorem moduleSort_adjacent_ordered:
  assumes "moduleSort st report = (st', r)" and "Suc i < length (st' r)"
  shows "maxSeverity (st' r ! i) \<ge> maxSeverity (st' r ! Suc i) \<and>
         (maxSeverity (st' r ! i) = maxSeverity (st' r ! Suc i) \<longrightarrow>
            name (st' r ! i) \<le> name (st' r ! Suc i))"
proof -
  have s: "st' r = Array_sort moduleCompare (st report)"
    using assms(1) by (auto simp: moduleSort_def)
  have "sorted_wrt before_eq (st' r)"
    unfolding s by (rule sorted_Array_sort)
  then have "before_eq (st' r ! i) (st' r ! Suc i)"
    using assms(2) by (simp add: sorted_wrt_iff_nth_less)
  then show ?thesis
    by (auto simp: before_eq_def)
qed

lemma sort_example: "Array_sort moduleCompare [example_P1, example_P2] = [example_P2, example_P1]"
  by (simp add: Array_sort_def SortCompare_def moduleCompare_def example_P1_def example_P2_def)

lemma sort_example3:
  "Array_sort moduleCompare [example_P1, example_P2, example_P3]
     = [example_P2, example_P3, example_P1]"
  by (simp add: Array_sort_def SortCompare_def moduleCompare_def example_P1_def example_P2_def
        example_P3_def lit_def)

theorem moduleSort_adjacent_ordered_witness:
  "moduleSort (\<lambda>_. [example_P1, example_P2, example_P3]) 0
     = ((\<lambda>_. [example_P1, example_P2, example_P3])(0 := [example_P2, example_P3, example_P1]), 0) \<and>
   maxSeverity example_P3 = maxSeverity example_P1 \<and>
   name example_P3 \<le> name example_P1"
proof -
  let ?st = "\<lambda>_::nat. [example_P1, example_P2, example_P3]"
  let ?st' = "?st(0 := [example_P2, example_P3, example_P1])"
  have m: "moduleSort ?st 0 = (?st', 0)"
    by (simp add: moduleSort_def sort_example3)
  have l: "Suc 1 < length (?st' 0)" by simp
  have e: "maxSeverity example_P3 = maxSeverity example_P1"
    by (simp add: example_P1_def example_P3_def)
  show ?thesis
    using m e moduleSort_adjacent_ordered [OF m l] by simp
qed

lemma sort_insert_front:
  assumes "\<forall>y\<in>set ys. before_eq x y"
  shows "sort_insert moduleCompare x ys = x # ys"
  using assms by (cases ys) (simp_all add: SortCompare_before_eq)

lemma Array_sort_sorted: "sorted_wrt before_eq xs \<Longrightarrow> Array_sort moduleCompare xs = xs"
proof (induction xs)
  case Nil
  show ?case by (simp add: Array_sort_def)
next
  case (Cons x xs)
  then have "Array_sort moduleCompare xs = xs" by simp
  moreover have "\<forall>y\<in>set xs. before_eq x y" using Cons.prems by simp
  ultimately show ?case
    using sort_insert_front [of xs x] by (simp add: Array_sort_def)
qed

lemma Array_sort_idem:
  "Array_sort moduleCompare (Array_sort moduleCompare xs) = Array_sort moduleCompare xs"
  by (rule Array_sort_sorted) (rule sorted_Array_sort)

text \<open>
  C9. \<open>moduleSort\<close> works in place: it returns the reference that it was given, the
  array behind it holds the same records reordered, and no other array changes. Sorting
  once more leaves the store as it is: \<open>sort (sort r) = sort r\<close>.
\<close>

theorem moduleSort_in_place_idempotent:
  assumes "moduleSort st report = (st', r)"
  shows "r = report \<and> (\<forall>q. q \<noteq> report \<longrightarrow> st' q = st q) \<and>
         mset (st' r) = mset (st report) \<and> moduleSort st' r = (st', r)"
proof -
  have r: "r = report" and st': "st' = st(report := Array_sort moduleCompare (st report))"
    using assms by (auto simp: moduleSort_def)
  have "moduleSort st' r = (st', r)"
    by (simp add: moduleSort_def r st' Array_sort_idem)
  then show ?thesis
    by (simp add: r st' mset_Array_sort)
qed

theorem moduleSort_in_place_idempotent_witness:
  "moduleSort (\<lambda>_. [example_P1, example_P2]) 0
     = ((\<lambda>_. [example_P1, example_P2])(0 := [example_P2, example_P1]), 0) \<and>
   moduleSort ((\<lambda>_. [example_P1, example_P2])(0 := [example_P2, example_P1])) 0
     = ((\<lambda>_. [example_P1, example_P2])(0 := [example_P2, example_P1]), 0)"
proof -
  have m: "moduleSort (\<lambda>_. [example_P1, example_P2]) 0
             = ((\<lambda>_. [example_P1, example_P2])(0 := [example_P2, example_P1]), 0)"
    by (simp add: moduleSort_def sort_example)
  show ?thesis
    using m moduleSort_in_place_idempotent [OF m] by simp
qed

section \<open>Properties of the vulnerability summary\<close>

lemma tally_pkg_summed: "tally_pkg ns p = Inr (summed_pkg ns p)"
  by (cases "failures p") (simp_all add: tally_pkg_def summed_pkg_def iterate_def or_empty_def)

lemma tally_from_summed: "tally_from ns report = Inr (foldl summed_pkg ns report)"
  by (induction report arbitrary: ns) (simp_all add: tally_pkg_summed)

lemma tally_summed: "tally report = Inr (summed report)"
  by (simp add: tally_def summed_def tally_from_summed)

lemma counter_increment:
  "s \<noteq> NONE \<Longrightarrow> counter s (increment ns s') = counter s ns + (if s = s' then 1 else 0)"
  by (cases s; cases s') simp_all

lemma counter_AFFECTED_update: "counter s (ns\<lparr>AFFECTED := a\<rparr>) = counter s ns"
  by (cases s) simp_all

lemma counter_summed_failure:
  "s \<noteq> NONE \<Longrightarrow> counter s (tally_failure nm ns f)
     = counter s ns + (if is_security f \<and> severity f = s then 1 else 0)"
  by (auto simp: tally_failure_def is_security_def counter_increment counter_AFFECTED_update)

lemma counter_foldl_failures:
  "s \<noteq> NONE \<Longrightarrow> counter s (foldl (tally_failure nm) ns fs)
     = counter s ns + length (filter (\<lambda>f. severity f = s) (filter is_security fs))"
  by (induction fs arbitrary: ns) (simp_all add: counter_summed_failure)

lemma counter_foldl_pkgs:
  "s \<noteq> NONE \<Longrightarrow> counter s (foldl summed_pkg ns report) = counter s ns + count_severity s report"
  by (induction report arbitrary: ns)
     (simp_all add: count_severity_def security_failures_def summed_pkg_def counter_foldl_failures)

lemma counter_summed:
  assumes "s \<noteq> NONE"
  shows "counter s (summed report) = count_severity s report"
proof -
  let ?init = "\<lparr>n_LOW = 0, n_MEDIUM = 0, n_HIGH = 0, n_CRITICAL = 0, AFFECTED = []\<rparr>"
  have "counter s (foldl summed_pkg ?init report) = counter s ?init + count_severity s report"
    using assms by (rule counter_foldl_pkgs)
  moreover have "counter s ?init = 0"
    by (cases s) simp_all
  ultimately show ?thesis
    by (simp only: summed_def add_0)
qed

lemma AFFECTED_increment: "AFFECTED (increment ns s) = AFFECTED ns"
  by (cases s) simp_all

lemma distinct_Set_add: "distinct xs \<Longrightarrow> distinct (Set_add x xs)"
  by (simp add: Set_add_def)

lemma set_Set_add: "set (Set_add x xs) = insert x (set xs)"
  by (auto simp: Set_add_def)

lemma affected_foldl_failures:
  "distinct (AFFECTED ns) \<Longrightarrow>
     distinct (AFFECTED (foldl (tally_failure nm) ns fs)) \<and>
     set (AFFECTED (foldl (tally_failure nm) ns fs))
       = set (AFFECTED ns) \<union> (if filter is_security fs = [] then {} else {nm})"
  by (induction fs arbitrary: ns)
     (auto simp: tally_failure_def is_security_def AFFECTED_increment distinct_Set_add set_Set_add)

lemma affected_foldl_pkgs:
  "distinct (AFFECTED ns) \<Longrightarrow>
     distinct (AFFECTED (foldl summed_pkg ns report)) \<and>
     set (AFFECTED (foldl summed_pkg ns report)) = set (AFFECTED ns) \<union> affected_names report"
proof (induction report arbitrary: ns)
  case Nil
  then show ?case by (simp add: affected_names_def)
next
  case (Cons p ps)
  let ?fs = "case failures p of None \<Rightarrow> [] | Some fs \<Rightarrow> fs"
  have step: "distinct (AFFECTED (summed_pkg ns p)) \<and>
        set (AFFECTED (summed_pkg ns p))
          = set (AFFECTED ns) \<union> (if filter is_security ?fs = [] then {} else {name p})"
    unfolding summed_pkg_def using Cons.prems by (rule affected_foldl_failures)
  have names: "affected_names (p # ps)
        = (if filter is_security ?fs = [] then {} else {name p}) \<union> affected_names ps"
    by (simp add: affected_names_def security_failures_def)
  from step Cons.IH [of "summed_pkg ns p"] show ?case
    unfolding names by auto
qed

lemma affected_summed:
  "length (AFFECTED (summed report)) = card (affected_names report)"
proof -
  have "distinct (AFFECTED (summed report)) \<and>
        set (AFFECTED (summed report)) = set [] \<union> affected_names report"
    unfolding summed_def using affected_foldl_pkgs [of _ report] by simp
  then show ?thesis
    by (metis distinct_card sup_bot.left_neutral empty_set)
qed

lemma length_counted:
  "length (filter (\<lambda>f. severity f \<noteq> NONE) fs)
     = length (filter (\<lambda>f. severity f = CRITICAL) fs) + length (filter (\<lambda>f. severity f = HIGH) fs)
       + length (filter (\<lambda>f. severity f = MEDIUM) fs) + length (filter (\<lambda>f. severity f = LOW) fs)"
proof (induction fs)
  case Nil
  show ?case by simp
next
  case (Cons f fs)
  then show ?case by (cases "severity f") simp_all
qed

lemma vulnerabilityCount_summed:
  "vulnerabilityCount (summed report) = length (counted_failures report)"
proof -
  have "n_CRITICAL (summed report) = count_severity CRITICAL report"
       "n_HIGH (summed report) = count_severity HIGH report"
       "n_MEDIUM (summed report) = count_severity MEDIUM report"
       "n_LOW (summed report) = count_severity LOW report"
    using counter_summed [of CRITICAL report] counter_summed [of HIGH report]
          counter_summed [of MEDIUM report] counter_summed [of LOW report]
    by simp_all
  then show ?thesis
    by (simp add: vulnerabilityCount_def counted_failures_def count_severity_def length_counted)
qed

lemma shortVulnerabilityList_summary:
  "shortVulnerabilityList chalk report = Inr (summary_of chalk report)"
proof -
  have c: "n_CRITICAL (summed report) = count_severity CRITICAL report"
       "n_HIGH (summed report) = count_severity HIGH report"
       "n_MEDIUM (summed report) = count_severity MEDIUM report"
       "n_LOW (summed report) = count_severity LOW report"
    using counter_summed [of CRITICAL report] counter_summed [of HIGH report]
          counter_summed [of MEDIUM report] counter_summed [of LOW report]
    by simp_all
  have h: "headline chalk (summed report) =
      lit ''  ''
        @ (if 0 < length (counted_failures report) then chalk Red (lit ''!'')
           else chalk Green [0x2713])
        @ lit '' '' @ digits (length (counted_failures report))
        @ lit '' security vulnerabilities found''
        @ (if 0 < card (affected_names report)
           then lit '' across '' @ digits (card (affected_names report)) @ lit '' modules''
           else [])"
    by (simp add: headline_def vulnerabilityCount_summed affected_summed lit_def)
  show ?thesis
    by (simp only: shortVulnerabilityList_def tally_summed sum.case h c severity_line_def
          summary_of_def)
qed

lemma counted_failures_sum:
  "length (counted_failures report)
     = count_severity CRITICAL report + count_severity HIGH report
       + count_severity MEDIUM report + count_severity LOW report"
  by (simp add: counted_failures_def count_severity_def length_counted)

text \<open>
  C2 (amended). The summary prints a headline and four lines. The total in the headline
  is the number of security failures, over all records and whether published or not,
  whose severity is CRITICAL, HIGH, MEDIUM or LOW: the sum of the four counts. The
  number of affected modules is the number of distinct names of records with a security
  failure, and is printed only when it is positive. Each of the four lines carries the
  number of security failures of its severity.
\<close>

theorem shortVulnerabilityList_reports:
  "shortVulnerabilityList chalk report =
     Inr [lit ''  ''
        @ (if 0 < length (counted_failures report) then chalk Red (lit ''!'')
           else chalk Green [0x2713])
        @ lit '' '' @ digits (length (counted_failures report))
        @ lit '' security vulnerabilities found''
        @ (if 0 < card (affected_names report)
           then lit '' across '' @ digits (card (affected_names report)) @ lit '' modules''
           else []),
      lit ''    '' @ chalk Red (lit ''C'') @ lit '' ''
        @ digits (count_severity CRITICAL report) @ lit '' critical severity'',
      lit ''    '' @ chalk Orange (lit ''H'') @ lit '' ''
        @ digits (count_severity HIGH report) @ lit '' high severity'',
      lit ''    '' @ chalk Yellow (lit ''M'') @ lit '' ''
        @ digits (count_severity MEDIUM report) @ lit '' medium severity'',
      lit ''    '' @ chalk Light1 (lit ''L'') @ lit '' ''
        @ digits (count_severity LOW report) @ lit '' low severity'']
   \<and> length (counted_failures report)
       = count_severity CRITICAL report + count_severity HIGH report
         + count_severity MEDIUM report + count_severity LOW report"
  using shortVulnerabilityList_summary [of chalk report] counted_failures_sum [of report]
  by (simp only: summary_of_def simp_thms)

lemma example_counts:
  "security_failures [example_P1, example_P2]
     = [security HIGH, security HIGH, security LOW, security CRITICAL]"
  by (simp add: security_failures_def example_P1_def example_P2_def is_security_def security_def)

theorem shortVulnerabilityList_reports_witness:
  "shortVulnerabilityList chalk_plain [example_P1, example_P2] =
     Inr [lit ''  ! 4 security vulnerabilities found across 2 modules'',
      lit ''    C 1 critical severity'',
      lit ''    H 2 high severity'',
      lit ''    M 0 medium severity'',
      lit ''    L 1 low severity'']"
proof -
  have a: "affected_names [example_P1, example_P2] = {lit ''p1'', lit ''p2''}"
    by (simp add: affected_names_def security_failures_def example_P1_def example_P2_def
          is_security_def security_def)
  have n: "card {lit ''p1'', lit ''p2''} = 2"
    by (simp add: lit_def)
  have k: "count_severity CRITICAL [example_P1, example_P2] = 1"
          "count_severity HIGH [example_P1, example_P2] = 2"
          "count_severity MEDIUM [example_P1, example_P2] = 0"
          "count_severity LOW [example_P1, example_P2] = 1"
          "length (counted_failures [example_P1, example_P2]) = 4"
    by (simp_all add: count_severity_def counted_failures_def example_counts security_def)
  show ?thesis
    using shortVulnerabilityList_reports [of chalk_plain "[example_P1, example_P2]"]
    by (simp add: a n k chalk_plain_def digits.simps lit_def)
qed

text \<open>
  A security failure of severity NONE is in no counter: the report has one security
  failure, the total printed is 0, and one module is affected.
\<close>

theorem shortVulnerabilityList_total_counterexample:
  "length (security_failures [example_Q]) = 1 \<and>
   shortVulnerabilityList chalk_plain [example_Q]
     = Inr [lit ''  '' @ [0x2713] @ lit '' 0 security vulnerabilities found across 1 modules'',
            lit ''    C 0 critical severity'',
            lit ''    H 0 high severity'',
            lit ''    M 0 medium severity'',
            lit ''    L 0 low severity'']"
  by (simp add: security_failures_def example_Q_def is_security_def security_def
        shortVulnerabilityList_def tally_def tally_pkg_def iterate_def or_empty_def
        tally_failure_def Set_add_def headline_def vulnerabilityCount_def severity_line_def
        chalk_plain_def digits.simps lit_def)

lemma security_failures_absent:
  "failures p = None \<Longrightarrow> security_failures (xs @ p # ys) = security_failures (xs @ ys)"
  by (simp add: security_failures_def)

lemma summary_of_absent:
  assumes "failures p = None"
  shows "summary_of chalk (xs @ p # ys) = summary_of chalk (xs @ ys)"
proof -
  have "security_failures [p] = []"
    using assms by (simp add: security_failures_def)
  then have "affected_names (xs @ p # ys) = affected_names (xs @ ys)"
    by (simp add: affected_names_def)
  then show ?thesis
    by (simp add: summary_of_def counted_failures_def count_severity_def
          security_failures_absent [OF assms])
qed

text \<open>
  C10. A record whose \<open>failures\<close> field is absent does not stop the summary: no
  exception is raised, and the headline and the four severity lines are printed, with
  the numbers of the report without that record. The record adds no failure to any
  count and is not counted as affected.
\<close>

theorem shortVulnerabilityList_absent_failures:
  assumes "failures p = None"
  shows "shortVulnerabilityList chalk (xs @ p # ys) = Inr (summary_of chalk (xs @ ys))"
  using assms
  by (simp only: shortVulnerabilityList_summary summary_of_absent)

lemma example_P1_counts:
  "security_failures [example_P1] = [security HIGH, security HIGH, security LOW]"
  by (simp add: security_failures_def example_P1_def is_security_def security_def)

theorem shortVulnerabilityList_absent_failures_witness:
  "failures (example_P2\<lparr>failures := None\<rparr>) = None \<and>
   shortVulnerabilityList chalk_plain [example_P1, example_P2\<lparr>failures := None\<rparr>]
     = Inr [lit ''  ! 3 security vulnerabilities found across 1 modules'',
            lit ''    C 0 critical severity'',
            lit ''    H 2 high severity'',
            lit ''    M 0 medium severity'',
            lit ''    L 1 low severity'']"
proof -
  have h: "failures (example_P2\<lparr>failures := None\<rparr>) = None"
    by simp
  have a: "affected_names [example_P1] = {lit ''p1''}"
    by (simp add: affected_names_def example_P1_counts) (simp add: example_P1_def)
  have k: "count_severity CRITICAL [example_P1] = 0"
          "count_severity HIGH [example_P1] = 2"
          "count_severity MEDIUM [example_P1] = 0"
          "count_severity LOW [example_P1] = 1"
          "length (counted_failures [example_P1]) = 3"
    by (simp_all add: count_severity_def counted_failures_def example_P1_counts security_def)
  have s: "summary_of chalk_plain [example_P1]
     = [lit ''  ! 3 security vulnerabilities found across 1 modules'',
            lit ''    C 0 critical severity'',
            lit ''    H 2 high severity'',
            lit ''    M 0 medium severity'',
            lit ''    L 1 low severity'']"
    by (simp add: summary_of_def a k chalk_plain_def digits.simps lit_def)
  show ?thesis
    using h shortVulnerabilityList_absent_failures [OF h, of chalk_plain "[example_P1]" "[]"]
    by (simp only: append.simps s simp_thms)
qed

section \<open>Properties of the table\<close>

lemma count_step_list:
  "count_step [a, b, c, d] f =
     [a + (if is_security f \<and> severity f = LOW then 1 else 0),
      b + (if is_security f \<and> severity f = MEDIUM then 1 else 0),
      c + (if is_security f \<and> severity f = HIGH then 1 else 0),
      d + (if is_security f \<and> severity f = CRITICAL then 1 else 0)]"
  by (cases "severity f") (simp_all add: count_step_def is_security_def)

lemma foldl_count_step:
  "foldl count_step [a, b, c, d] fs =
     [a + bucket LOW fs, b + bucket MEDIUM fs, c + bucket HIGH fs, d + bucket CRITICAL fs]"
proof (induction fs arbitrary: a b c d)
  case Nil
  show ?case by (simp add: bucket_def)
next
  case (Cons f fs)
  show ?case
    by (simp only: foldl_Cons count_step_list Cons.IH) (simp add: bucket_def)
qed

lemma count_vulns_buckets:
  "count_vulns fs = [bucket LOW fs, bucket MEDIUM fs, bucket HIGH fs, bucket CRITICAL fs]"
  by (simp add: count_vulns_def foldl_count_step)

lemma lit_space_not_empty: "lit '' '' \<noteq> []" "lit '' 0'' \<noteq> []"
  by (simp_all add: lit_def)

lemma concat_securityBadges:
  "concat (securityBadges chalk (count_vulns fs))
     = aggregate_glyph chalk fs @ concat (map (badge_text chalk fs) (shown_badges fs))"
  by (simp add: count_vulns_buckets securityBadges_def aggregate_glyph_def shown_badges_def
        badge_table_def badge_text_def)

lemma filled_securityBadges:
  "length (filter (\<lambda>x. x \<noteq> []) (securityBadges chalk (count_vulns fs)))
     = 1 + length (shown_badges fs)"
  by (simp add: count_vulns_buckets securityBadges_def shown_badges_def badge_table_def
        lit_space_not_empty)

lemma length_shown_badges: "length (shown_badges fs) \<le> 4"
  by (simp add: shown_badges_def badge_table_def)

lemma securityCell_text:
  "securityCell chalk (securityBadges chalk (count_vulns fs)) = Inr (security_text chalk fs)"
proof -
  have n: "int (length (filter (\<lambda>x. x \<noteq> []) (securityBadges chalk (count_vulns fs))))
             = 1 + int (length (shown_badges fs))"
    by (simp add: filled_securityBadges)
  have k: "length (shown_badges fs) \<le> 4" by (rule length_shown_badges)
  have p: "nat (W ! 3 - 2 - (1 + int (length (shown_badges fs))) * 2)
             = 11 - 2 * length (shown_badges fs)"
    using k by (simp add: W_def)
  have q: "\<not> W ! 3 - 2 - (1 + int (length (shown_badges fs))) * 2 < 0"
    using k by (simp add: W_def)
  show ?thesis
    by (simp only: securityCell_def n js_repeat_def q if_False sum.case p
          concat_securityBadges security_text_def append_assoc)
qed

lemma W_values: "W ! 0 = 40" "W ! 1 = 12" "W ! Suc 0 = 12" "W ! 2 = 23" "W ! 3 = 15"
  by (simp_all add: W_def)

lemma nameCell_fits:
  "length label \<le> 40 \<Longrightarrow> nameCell chalk label = Inr (name_text chalk label)"
  by (simp add: nameCell_def js_repeat_def W_values name_text_def nat_diff_distrib')

lemma nameCell_overflow: "40 < length label \<Longrightarrow> nameCell chalk label = Inl RangeError"
  by (simp add: nameCell_def js_repeat_def W_values)

lemma moduleRow_begins:
  assumes "moduleRow chalk p = Inr row"
  shows "\<exists>c0 rest. nameCell chalk (moduleName p) = Inr c0 \<and> row = c0 @ rest"
  using assms
  by (auto simp: moduleRow_def Let_def split: if_splits option.splits sum.splits)

lemma moduleRow_unpublished:
  assumes "\<not> published p"
  shows "moduleRow chalk p =
           (if length (moduleName p) \<le> 40
            then Inr (name_text chalk (moduleName p) @ blank_cells chalk)
            else Inl RangeError)"
proof (cases "length (moduleName p) \<le> 40")
  case True
  then show ?thesis
    using assms by (simp add: moduleRow_def nameCell_fits blank_cells_def W_values)
next
  case False
  then have "40 < length (moduleName p)" by simp
  then show ?thesis
    using assms False by (simp add: moduleRow_def nameCell_overflow)
qed

lemma severityMeter_text: "severityMeter chalk sev = Inr (meter_text chalk sev)"
  by (cases sev)
     (simp_all add: severityMeter_def meter_text_def indexOf_def SEVERITY_RMAP_def js_repeat_def)

lemma rmap_at_range: "0 \<le> m \<Longrightarrow> m < 5 \<Longrightarrow> \<exists>sev. rmap_at m = Some sev"
  by (simp add: rmap_at_def SEVERITY_RMAP_def)

lemma riskBadge_defined: "0 \<le> m \<Longrightarrow> m < 5 \<Longrightarrow> \<exists>rb. riskBadge chalk m = Inr rb"
  using rmap_at_range [of m] by (auto simp: riskBadge_def severityMeter_text)

lemma length_licenseText: "length (licenseText t) \<le> 20"
  by (simp add: licenseText_def Let_def W_values slice0_def)

lemma licenseCell_defined: "\<exists>c. licenseCell chalk b (licenseText t) = Inr c"
  using length_licenseText [of t] by (simp add: licenseCell_def js_repeat_def W_values)

lemma moduleRow_ends:
  assumes "published p" and "moduleRow chalk p = Inr row"
  shows "\<exists>fs front. failures p = Some fs \<and> row = front @ security_text chalk fs"
proof -
  from assms obtain l fs rb c0 c2 c3
    where fs: "failures p = Some fs"
      and c3: "securityCell chalk (securityBadges chalk (count_vulns fs)) = Inr c3"
      and row: "row = c0 @ riskCell chalk rb @ c2 @ c3"
    by (auto simp: moduleRow_def Let_def split: option.splits sum.splits)
  from c3 have "c3 = security_text chalk fs"
    by (simp add: securityCell_text)
  with row have "row = (c0 @ riskCell chalk rb @ c2) @ security_text chalk fs"
    by simp
  with fs show ?thesis by blast
qed

lemma moduleRow_defined:
  assumes "published p" and "license p \<noteq> None" and "failures p \<noteq> None"
    and "0 \<le> maxSeverity p" and "maxSeverity p < 5" and "length (moduleName p) \<le> 40"
  shows "\<exists>row. moduleRow chalk p = Inr row"
proof -
  from assms(2,3) obtain l fs where l: "license p = Some l" and fs: "failures p = Some fs"
    by auto
  from riskBadge_defined [OF assms(4,5)] obtain rb
    where rb: "riskBadge chalk (maxSeverity p) = Inr rb" by blast
  from licenseCell_defined obtain c2
    where c2: "licenseCell chalk (licenseBadge chalk l) (licenseText (title l)) = Inr c2"
    by blast
  show ?thesis
    using assms(1)
    by (simp add: moduleRow_def l fs rb c2 nameCell_fits [OF assms(6)] securityCell_text)
qed

lemma moduleRow_published_overflow:
  assumes "published p" and "license p \<noteq> None" and "failures p \<noteq> None"
    and "0 \<le> maxSeverity p" and "maxSeverity p < 5" and "40 < length (moduleName p)"
  shows "moduleRow chalk p = Inl RangeError"
proof -
  from assms(2,3) obtain l fs where l: "license p = Some l" and fs: "failures p = Some fs"
    by auto
  from riskBadge_defined [OF assms(4,5)] obtain rb
    where rb: "riskBadge chalk (maxSeverity p) = Inr rb" by blast
  show ?thesis
    using assms(1) by (simp add: moduleRow_def l fs rb nameCell_overflow [OF assms(6)])
qed

lemma moduleRow_security_cell:
  assumes "published p"
  shows "(\<forall>row. moduleRow chalk p = Inr row \<longrightarrow>
            (\<exists>fs front. failures p = Some fs \<and> row = front @ security_text chalk fs)) \<and>
         (license p \<noteq> None \<and> failures p \<noteq> None \<and> 0 \<le> maxSeverity p \<and> maxSeverity p < 5 \<and>
          length (moduleName p) \<le> 40 \<longrightarrow> (\<exists>row. moduleRow chalk p = Inr row))"
  using assms moduleRow_ends [of p chalk] moduleRow_defined [of p chalk] by blast

lemma moduleName_short_version:
  assumes "40 < length (name p @ lit '' @ '' @ version p)" and "length (version p) \<le> 8"
  shows "moduleName p = take 26 (name p) @ lit ''... @ '' @ version p \<and>
         length (moduleName p) = 32 + length (version p) \<and>
         length (moduleName p) \<le> 40 \<and>
         nameCell chalk (moduleName p) = Inr (name_text chalk (moduleName p)) \<and>
         (\<forall>row. moduleRow chalk p = Inr row \<longrightarrow>
            (\<exists>rest. row = name_text chalk (moduleName p) @ rest))"
proof -
  have m: "moduleName p = take 26 (name p) @ lit ''... @ '' @ version p"
    using assms(1) by (simp add: moduleName_def Let_def W_values slice0_def)
  have "26 \<le> length (name p)"
    using assms by (simp add: lit_def)
  then have l: "length (moduleName p) = 32 + length (version p)"
    unfolding m by (simp add: lit_def)
  then have f: "length (moduleName p) \<le> 40"
    using assms(2) by simp
  have c: "nameCell chalk (moduleName p) = Inr (name_text chalk (moduleName p))"
    using f by (rule nameCell_fits)
  have "\<exists>rest. row = name_text chalk (moduleName p) @ rest"
    if "moduleRow chalk p = Inr row" for row
    using moduleRow_begins [OF that] c by auto
  with m l f c show ?thesis by blast
qed

lemma riskBadge_two_units:
  assumes "rmap_at m = Some sev" and "2 \<le> length (meter_text chalk sev)"
  shows "riskBadge chalk m = Inr (take 2 (meter_text chalk sev) @ severityTextLabel chalk sev)"
proof (cases "meter_text chalk sev")
  case Nil
  with assms(2) show ?thesis by simp
next
  case outer: (Cons a as)
  show ?thesis
  proof (cases as)
    case Nil
    with outer assms(2) show ?thesis by simp
  next
    case (Cons b rest)
    with outer assms(1) show ?thesis
      by (simp add: riskBadge_def severityMeter_text js_at_def)
  qed
qed

subsection \<open>From the rows to the table\<close>

lemma forEach_rows_printed:
  assumes "forEach_rows chalk dividers n ind ps = (ls, None)" and "p \<in> set ps"
  shows "\<exists>row. moduleRow chalk p = Inr row \<and> row \<in> set ls"
  using assms
proof (induction ps arbitrary: ind ls)
  case Nil
  then show ?case by simp
next
  case (Cons q qs)
  from Cons.prems(1) obtain row0 where q: "moduleRow chalk q = Inr row0"
    by (cases "moduleRow chalk q") auto
  obtain ls' e where rest: "forEach_rows chalk dividers n (Suc ind) qs = (ls', e)"
    by (cases "forEach_rows chalk dividers n (Suc ind) qs")
  from Cons.prems(1) q rest have e: "e = None" and row0: "row0 \<in> set ls"
    and sub: "set ls' \<subseteq> set ls"
    by (auto simp: Let_def)
  show ?case
  proof (cases "p = q")
    case True
    with q row0 show ?thesis by blast
  next
    case False
    with Cons.prems(2) have "p \<in> set qs" by simp
    from Cons.IH [OF rest [unfolded e] this] sub show ?thesis by blast
  qed
qed

lemma set_Array_sort: "set (Array_sort comparefn xs) = set xs"
  using mset_Array_sort [of comparefn xs] by (rule mset_eq_setD)

lemma moduleList_printed:
  assumes "moduleList chalk st report dividers = (st', lines, None)" and "p \<in> set (st report)"
  shows "\<exists>row. moduleRow chalk p = Inr row \<and> row \<in> set lines"
proof -
  let ?sorted = "Array_sort moduleCompare (st report)"
  obtain ls e where body: "forEach_rows chalk dividers (length ?sorted) 0 ?sorted = (ls, e)"
    by (cases "forEach_rows chalk dividers (length ?sorted) 0 ?sorted")
  from assms(1) body have e: "e = None" and lines: "lines = header chalk # topBorder chalk # ls"
    by (auto simp: moduleList_def moduleSort_def)
  have "p \<in> set ?sorted"
    using assms(2) by (simp add: set_Array_sort)
  from forEach_rows_printed [OF body [unfolded e] this] lines show ?thesis
    by auto
qed

lemma moduleList_security_cell:
  assumes "moduleList chalk st report dividers = (st', lines, None)" and "p \<in> set (st report)"
    and "published p"
  shows "\<exists>fs front. failures p = Some fs \<and> front @ security_text chalk fs \<in> set lines"
proof -
  from moduleList_printed [OF assms(1,2)] obtain row
    where row: "moduleRow chalk p = Inr row" "row \<in> set lines" by blast
  from moduleRow_ends [OF assms(3) row(1)] row(2) show ?thesis by blast
qed

lemma moduleList_single:
  "snd (moduleList chalk (\<lambda>_. [p]) r dividers) =
     (case moduleRow chalk p of
        Inl e \<Rightarrow> ([header chalk, topBorder chalk], Some e)
      | Inr row \<Rightarrow> ([header chalk, topBorder chalk, row, bottomBorder chalk], None))"
  by (simp add: moduleList_def moduleSort_def Array_sort_def split: sum.splits)

subsection \<open>What the sort and the rows do not read\<close>







subsection \<open>Sample rows\<close>

lemma example_P1_buckets:
  "bucket CRITICAL [security HIGH, security HIGH, security LOW] = 0"
  "bucket HIGH [security HIGH, security HIGH, security LOW] = 2"
  "bucket MEDIUM [security HIGH, security HIGH, security LOW] = 0"
  "bucket LOW [security HIGH, security HIGH, security LOW] = 1"
  by (simp_all add: bucket_def is_security_def security_def)

lemma template_arg_lit:
  "template_arg (lit ''p1 @ 1.0.0'') = lit ''p1 @ 1.0.0''"
  "template_arg (lit ''p2 @ 2.0.0'') = lit ''p2 @ 2.0.0''"
  "template_arg (lit ''MIT'') = lit ''MIT''"
  "template_arg (lit ''@babel/plugin-proposal-cla... @ 7.5.5'')
     = lit ''@babel/plugin-proposal-cla... @ 7.5.5''"
  by (simp_all add: template_arg_def lit_def)

lemma moduleRow_example_P1: "moduleRow chalk_plain example_P1 = Inr example_P1_row"
proof -
  have r: "rmap_at 3 = Some HIGH"
    by (simp add: rmap_at_def SEVERITY_RMAP_def)
  have h: "riskBadge chalk_plain 3 = Inr (lit ''||High'')"
    by (simp add: riskBadge_def r severityMeter_text meter_text_def js_at_def
          severityTextLabel_def chalk_plain_def rep_def lit_def eval_nat_numeral)
  have n: "moduleName example_P1 = lit ''p1 @ 1.0.0''"
    by (simp add: moduleName_def example_P1_def W_values lit_def)
  have nc: "nameCell chalk_plain (lit ''p1 @ 1.0.0'')
              = Inr ([0x2502] @ lit '' p1 @ 1.0.0 '' @ rep 30 (lit '' '') @ [0x2502] @ lit '' '')"
    unfolding nameCell_def template_arg_lit
    by (simp add: js_repeat_def W_values bar_def chalk_plain_def lit_def)
  have lt: "licenseText (lit ''SPDX:MIT'') = lit ''MIT''"
    by (simp add: licenseText_def trim_def is_space_def W_values lit_def)
  have lc: "licenseCell chalk_plain [0x2713] (lit ''MIT'')
              = Inr ([0x2713] @ lit '' MIT'' @ rep 17 (lit '' '') @ [0x2502] @ lit '' '')"
    unfolding licenseCell_def template_arg_lit
    by (simp add: js_repeat_def W_values bar_def chalk_plain_def lit_def)
  have st: "security_text chalk_plain [security HIGH, security HIGH, security LOW]
             = lit ''X 2H 1L '' @ rep 7 (lit '' '') @ [0x2502]"
    by (simp add: security_text_def aggregate_glyph_def shown_badges_def badge_table_def
          badge_text_def example_P1_buckets chalk_plain_def bar_def digits.simps lit_def)
  show ?thesis
    unfolding moduleRow_def n example_P1_row_def
    by (simp add: example_P1_def h nc lt lc licenseBadge_def securityCell_text st
          riskCell_def W_values bar_def chalk_plain_def)
       (simp add: lit_def rep_def numeral_2_eq_2)
qed


lemma moduleName_example_long_name:
  "moduleName example_long_name = lit ''@babel/plugin-proposal-cla... @ 7.5.5''"
  by (simp add: moduleName_def example_long_name_def W_values slice0_def lit_def)

lemma moduleRow_example_long_name:
  "moduleRow chalk_plain example_long_name = Inr example_long_name_row"
proof -
  have u: "\<not> published example_long_name"
    by (simp add: example_long_name_def)
  have l: "length (lit ''@babel/plugin-proposal-cla... @ 7.5.5'') \<le> 40"
    by (simp add: lit_def)
  have t: "name_text chalk_plain (lit ''@babel/plugin-proposal-cla... @ 7.5.5'')
             @ blank_cells chalk_plain = example_long_name_row"
    unfolding name_text_def template_arg_lit
    by (simp add: blank_cells_def bar_def chalk_plain_def example_long_name_row_def lit_def)
  show ?thesis
    by (simp only: moduleRow_unpublished [OF u] moduleName_example_long_name l if_True t)
qed

lemma moduleName_example_long_version:
  "moduleName example_long_version = lit ''@babel/plugin-proposal-cla... @ 7.0.0-beta.42''"
  by (simp add: moduleName_def example_long_version_def W_values slice0_def lit_def)

lemma moduleRow_example_long_version:
  "moduleRow chalk_plain example_long_version = Inl RangeError"
proof -
  have u: "\<not> published example_long_version"
    by (simp add: example_long_version_def)
  have l: "\<not> length (moduleName example_long_version) \<le> 40"
    unfolding moduleName_example_long_version by (simp add: lit_def)
  show ?thesis
    by (simp only: moduleRow_unpublished [OF u] l if_False)
qed

lemma moduleRow_example_long_published:
  "moduleRow chalk_plain example_long_published = Inl RangeError"
proof -
  have n: "moduleName example_long_published
             = lit ''@babel/plugin-proposal-cla... @ 7.0.0-beta.42''"
    by (simp add: moduleName_def example_long_published_def W_values slice0_def lit_def)
  have l: "40 < length (moduleName example_long_published)"
    unfolding n by (simp add: lit_def)
  show ?thesis
    by (rule moduleRow_published_overflow [OF _ _ _ _ _ l])
       (simp_all add: example_long_published_def)
qed


subsection \<open>The table of sample reports\<close>

text \<open>
  C3. The label of a long name is cut to fit only when the version has at most 8 code
  units: the cut keeps 26 code units of the name, which with the ellipsis and the
  separator leaves 8 of the 40 columns. The first table is that of a record with a
  version of 5: its label is cut and the row printed. The second is that of a record
  with a version of 13: the cut label has 45 code units, the padding of the cell is
  asked for a negative count, and the table ends in a RangeError after the header and
  the top border.
\<close>

theorem moduleList_long_version:
  "snd (moduleList chalk_plain (\<lambda>_. [example_long_name]) 0 False)
     = ([header chalk_plain, topBorder chalk_plain, example_long_name_row,
         bottomBorder chalk_plain], None) \<and>
   40 < length (name example_long_version @ lit '' @ '' @ version example_long_version) \<and>
   moduleName example_long_version = lit ''@babel/plugin-proposal-cla... @ 7.0.0-beta.42'' \<and>
   length (moduleName example_long_version) = 45 \<and>
   snd (moduleList chalk_plain (\<lambda>_. [example_long_version]) 0 False)
     = ([header chalk_plain, topBorder chalk_plain], Some RangeError)"
proof -
  have a: "snd (moduleList chalk_plain (\<lambda>_. [example_long_name]) 0 False)
     = ([header chalk_plain, topBorder chalk_plain, example_long_name_row,
         bottomBorder chalk_plain], None)"
    by (simp add: moduleList_single moduleRow_example_long_name)
  have b: "40 < length (name example_long_version @ lit '' @ '' @ version example_long_version)"
    by (simp add: example_long_version_def lit_def)
  have c: "length (moduleName example_long_version) = 45"
    unfolding moduleName_example_long_version by (simp add: lit_def)
  have d: "snd (moduleList chalk_plain (\<lambda>_. [example_long_version]) 0 False)
     = ([header chalk_plain, topBorder chalk_plain], Some RangeError)"
    by (simp add: moduleList_single moduleRow_example_long_version)
  from a b moduleName_example_long_version c d show ?thesis by blast
qed

text \<open>
  C4. The Risk Score cell does not hold the meter. \<open>severityMeter\<close> returns one string,
  and the row takes its indices 0 and 1: two code units. With colours off these are two
  bars of the four, uncoloured; with colours on they are the first two code units of the
  escape sequence. Here for the worst severity, and in a whole row.
\<close>

theorem riskBadge_critical:
  "severityMeter chalk_plain CRITICAL = Inr (lit ''||||'') \<and>
   riskBadge chalk_plain 4 = Inr (lit ''||Crit'') \<and>
   riskBadge (chalk_ansi sgr) 4 = Inr ([0x1B, 0x5B] @ chalk_ansi sgr Light1 (lit ''Crit'')) \<and>
   moduleRow chalk_plain example_P1
     = Inr ([0x2502] @ lit '' p1 @ 1.0.0 '' @ rep 30 (lit '' '') @ [0x2502]
            @ lit '' ||High  '' @ [0x2502]
            @ lit '' '' @ [0x2713] @ lit '' MIT'' @ rep 17 (lit '' '') @ [0x2502]
            @ lit '' X 2H 1L '' @ rep 7 (lit '' '') @ [0x2502])"
proof -
  have r: "rmap_at 4 = Some CRITICAL"
    by (simp add: rmap_at_def SEVERITY_RMAP_def)
  have a: "severityMeter chalk_plain CRITICAL = Inr (lit ''||||'')"
    by (simp add: severityMeter_text meter_text_def chalk_plain_def rep_def lit_def
          eval_nat_numeral)
  have b: "riskBadge chalk_plain 4 = Inr (lit ''||Crit'')"
    by (simp add: riskBadge_def r a js_at_def severityTextLabel_def chalk_plain_def lit_def)
  have c: "riskBadge (chalk_ansi sgr) 4
             = Inr ([0x1B, 0x5B] @ chalk_ansi sgr Light1 (lit ''Crit''))"
    by (simp add: riskBadge_def r severityMeter_text meter_text_def js_at_def
          severityTextLabel_def chalk_ansi_def rep_def lit_def eval_nat_numeral)
  have row: "moduleRow chalk_plain example_P1
     = Inr ([0x2502] @ lit '' p1 @ 1.0.0 '' @ rep 30 (lit '' '') @ [0x2502]
            @ lit '' ||High  '' @ [0x2502]
            @ lit '' '' @ [0x2713] @ lit '' MIT'' @ rep 17 (lit '' '') @ [0x2502]
            @ lit '' X 2H 1L '' @ rep 7 (lit '' '') @ [0x2502])"
    by (simp only: moduleRow_example_P1 example_P1_row_def)
  from a b c row show ?thesis by blast
qed

text \<open>
  C5. The row of a published record ends with the Security cell, and in the table of
  the first sample record the cell is \<open>X 2H 1L\<close>: the aggregate glyph, a badge for HIGH
  and a badge for LOW, none for CRITICAL and MEDIUM. A published record with the same
  failures, a long name and a version of 13 code units has no Security cell: its table
  ends in the RangeError of the Module Name cell before the row is printed.
\<close>

theorem moduleList_security_cell_lost:
  "snd (moduleList chalk_plain (\<lambda>_. [example_P1]) 0 False)
     = ([header chalk_plain, topBorder chalk_plain,
         [0x2502] @ lit '' p1 @ 1.0.0 '' @ rep 30 (lit '' '') @ [0x2502]
         @ lit '' ||High  '' @ [0x2502]
         @ lit '' '' @ [0x2713] @ lit '' MIT'' @ rep 17 (lit '' '') @ [0x2502]
         @ lit '' X 2H 1L '' @ rep 7 (lit '' '') @ [0x2502],
         bottomBorder chalk_plain], None) \<and>
   published example_long_published \<and>
   failures example_long_published = Some [security HIGH, security HIGH, security LOW] \<and>
   snd (moduleList chalk_plain (\<lambda>_. [example_long_published]) 0 False)
     = ([header chalk_plain, topBorder chalk_plain], Some RangeError)"
proof -
  have a: "snd (moduleList chalk_plain (\<lambda>_. [example_P1]) 0 False)
     = ([header chalk_plain, topBorder chalk_plain, example_P1_row,
         bottomBorder chalk_plain], None)"
    by (simp add: moduleList_single moduleRow_example_P1)
  have b: "snd (moduleList chalk_plain (\<lambda>_. [example_long_published]) 0 False)
     = ([header chalk_plain, topBorder chalk_plain], Some RangeError)"
    by (simp add: moduleList_single moduleRow_example_long_published)
  have c: "published example_long_published"
          "failures example_long_published = Some [security HIGH, security HIGH, security LOW]"
    by (simp_all add: example_long_published_def)
  from a [unfolded example_P1_row_def] b c show ?thesis by blast
qed




text \<open>
  C7. On the empty report \<open>moduleSort\<close> leaves the empty array, and the summary prints a
  total of 0, no count of modules and four lines at 0. \<open>moduleList\<close> prints the header
  and the top border and nothing else: the bottom border is printed after the last
  record, and there is none.
\<close>

theorem empty_report:
  "moduleSort (\<lambda>_. []) r = (\<lambda>_. [], r) \<and>
   moduleList chalk (\<lambda>_. []) r dividers = (\<lambda>_. [], [header chalk, topBorder chalk], None) \<and>
   shortVulnerabilityList chalk [] =
     Inr [lit ''  '' @ chalk Green [0x2713] @ lit '' 0 security vulnerabilities found'',
      lit ''    '' @ chalk Red (lit ''C'') @ lit '' 0 critical severity'',
      lit ''    '' @ chalk Orange (lit ''H'') @ lit '' 0 high severity'',
      lit ''    '' @ chalk Yellow (lit ''M'') @ lit '' 0 medium severity'',
      lit ''    '' @ chalk Light1 (lit ''L'') @ lit '' 0 low severity'']"
proof -
  have s: "moduleSort (\<lambda>_. []) r = (\<lambda>_. [], r)"
    by (simp add: moduleSort_def Array_sort_def fun_eq_iff)
  have l: "moduleList chalk (\<lambda>_. []) r dividers
             = (\<lambda>_. [], [header chalk, topBorder chalk], None)"
    by (simp add: moduleList_def s)
  have v: "shortVulnerabilityList chalk [] =
     Inr [lit ''  '' @ chalk Green [0x2713] @ lit '' 0 security vulnerabilities found'',
      lit ''    '' @ chalk Red (lit ''C'') @ lit '' 0 critical severity'',
      lit ''    '' @ chalk Orange (lit ''H'') @ lit '' 0 high severity'',
      lit ''    '' @ chalk Yellow (lit ''M'') @ lit '' 0 medium severity'',
      lit ''    '' @ chalk Light1 (lit ''L'') @ lit '' 0 low severity'']"
    by (simp add: shortVulnerabilityList_def tally_def headline_def vulnerabilityCount_def
          severity_line_def digits.simps lit_def)
  from s l v show ?thesis by blast
qed

section \<open>Properties of writing the report file\<close>

lemma outputReport_no_directory:
  "cwd w = None \<Longrightarrow> outputReport w report NotAString = ([], Rejected)"
  by (simp add: outputReport_def)

lemma outputReport_directory:
  assumes "(case dir of DirString s \<Rightarrow> Some s | NotAString \<Rightarrow> cwd w) = Some d"
  shows "outputReport w report dir =
     (case stringify w report of
        None \<Rightarrow> ([HandledError (lit ''Tools::UnableToFormatOutput'')], Resolved)
      | Some json \<Rightarrow>
          if writeFile w (path_join w d (reportFileName (now w))) json
          then ([FileWritten (path_join w d (reportFileName (now w))) json,
                 Logged (boxbox w [0x2713]
                           (lit ''Report successfully written to: ''
                            @ path_join w d (reportFileName (now w))) Green)], Resolved)
          else ([HandledError (lit ''Tools::UnableToFormatOutput'')], Resolved))"
  using assms
  by (simp add: outputReport_def try_block_def handleError_def Let_def split: option.splits)

text \<open>
  C8 (amended). No fault of the serialisation or of the write reaches the caller of
  \<open>outputReport\<close>: when either fails, the one effect is the error reported under
  \<open>Tools::UnableToFormatOutput\<close>, and the promise resolves. The promise rejects in one
  case only: the directory argument is not a string and \<open>process.cwd()\<close>, called before
  the \<open>try\<close> block, throws. When the directory argument is not a string and
  \<open>process.cwd()\<close> returns, the file written on success is
  \<open>ncm-score-report-{timestamp}.json\<close> joined to the working directory.
\<close>

theorem outputReport_settles:
  "(snd (outputReport w report dir) = Rejected \<longleftrightarrow> dir = NotAString \<and> cwd w = None) \<and>
   (snd (outputReport w report dir) = Resolved \<longleftrightarrow> \<not> (dir = NotAString \<and> cwd w = None)) \<and>
   (\<forall>d. (case dir of DirString s \<Rightarrow> Some s | NotAString \<Rightarrow> cwd w) = Some d \<longrightarrow>
      (stringify w report = None \<longrightarrow>
         outputReport w report dir
           = ([HandledError (lit ''Tools::UnableToFormatOutput'')], Resolved)) \<and>
      (\<forall>json. stringify w report = Some json \<and>
         \<not> writeFile w (path_join w d (reportFileName (now w))) json \<longrightarrow>
         outputReport w report dir
           = ([HandledError (lit ''Tools::UnableToFormatOutput'')], Resolved))) \<and>
   (\<forall>c json. cwd w = Some c \<and> stringify w report = Some json \<and>
      writeFile w (path_join w c (reportFileName (now w))) json \<longrightarrow>
      (\<exists>msg. outputReport w report NotAString
         = ([FileWritten
               (path_join w c
                  (lit ''ncm-score-report-'' @ show_int (now w) @ lit ''.json'')) json,
             Logged msg], Resolved)))"
proof -
  let ?dir = "case dir of DirString s \<Rightarrow> Some s | NotAString \<Rightarrow> cwd w"
  have r: "snd (outputReport w report dir) = Resolved" if "?dir = Some d" for d
    by (simp add: outputReport_directory [OF that] split: option.splits)
  have n: "?dir = None \<longleftrightarrow> dir = NotAString \<and> cwd w = None"
    by (cases dir) simp_all
  have j: "snd (outputReport w report dir) = Rejected" if "?dir = None"
    using that by (simp add: outputReport_def)
  have 1: "snd (outputReport w report dir) = Rejected \<longleftrightarrow> dir = NotAString \<and> cwd w = None"
    using r j n by (cases ?dir) auto
  have 2: "snd (outputReport w report dir) = Resolved \<longleftrightarrow> \<not> (dir = NotAString \<and> cwd w = None)"
    using r j n by (cases ?dir) auto
  have 3: "outputReport w report dir
           = ([HandledError (lit ''Tools::UnableToFormatOutput'')], Resolved)"
    if "?dir = Some d" and "stringify w report = None" for d
    using that(2) by (simp add: outputReport_directory [OF that(1)])
  have 4: "outputReport w report dir
           = ([HandledError (lit ''Tools::UnableToFormatOutput'')], Resolved)"
    if "?dir = Some d" and "stringify w report = Some json"
      and "\<not> writeFile w (path_join w d (reportFileName (now w))) json" for d json
    using that(2,3) by (simp add: outputReport_directory [OF that(1)])
  have 5: "\<exists>msg. outputReport w report NotAString
         = ([FileWritten
               (path_join w c
                  (lit ''ncm-score-report-'' @ show_int (now w) @ lit ''.json'')) json,
             Logged msg], Resolved)"
    if "cwd w = Some c" and "stringify w report = Some json"
      and "writeFile w (path_join w c (reportFileName (now w))) json" for c json
  proof -
    have "(case NotAString of DirString s \<Rightarrow> Some s | NotAString \<Rightarrow> cwd w) = Some c"
      using that(1) by simp
    from outputReport_directory [OF this, of report] that(2,3) show ?thesis
      by (simp add: reportFileName_def)
  qed
  from 1 2 3 4 5 show ?thesis by blast
qed

lemma example_timestamp: "show_int 1562112000000 = lit ''1562112000000''"
  by (simp add: show_int_def digits.simps lit_def)

theorem outputReport_settles_witness:
  "(\<exists>msg. outputReport example_world [] NotAString
      = ([FileWritten (lit ''/work/ncm-score-report-1562112000000.json'') (lit ''[]''),
          Logged msg], Resolved)) \<and>
   outputReport (example_world\<lparr>writeFile := (\<lambda>path content. False)\<rparr>) []
       (DirString (lit ''/out''))
     = ([HandledError (lit ''Tools::UnableToFormatOutput'')], Resolved) \<and>
   outputReport example_world [example_P1] NotAString
     = ([HandledError (lit ''Tools::UnableToFormatOutput'')], Resolved) \<and>
   snd (outputReport (example_world\<lparr>cwd := None\<rparr>) [] (DirString (lit ''/out''))) = Resolved"
proof -
  have c: "cwd example_world = Some (lit ''/work'')"
    by (simp add: example_world_def)
  have s: "stringify example_world [] = Some (lit ''[]'')"
    by (simp add: example_world_def)
  have wr: "writeFile example_world
             (path_join example_world (lit ''/work'') (reportFileName (now example_world)))
             (lit ''[]'')"
    by (simp add: example_world_def)
  have p: "path_join example_world (lit ''/work'')
             (lit ''ncm-score-report-'' @ show_int (now example_world) @ lit ''.json'')
           = lit ''/work/ncm-score-report-1562112000000.json''"
    by (simp add: example_world_def example_timestamp) (simp add: lit_def)
  have a: "\<exists>msg. outputReport example_world [] NotAString
      = ([FileWritten (lit ''/work/ncm-score-report-1562112000000.json'') (lit ''[]''),
          Logged msg], Resolved)"
  proof -
    have "\<exists>msg. outputReport example_world [] NotAString
      = ([FileWritten
            (path_join example_world (lit ''/work'')
               (lit ''ncm-score-report-'' @ show_int (now example_world) @ lit ''.json''))
            (lit ''[]''),
          Logged msg], Resolved)"
      using outputReport_settles [of example_world "[]" NotAString] c s wr by blast
    then show ?thesis
      by (simp only: p)
  qed
  let ?w = "example_world\<lparr>writeFile := (\<lambda>path content. False)\<rparr>"
  have s': "stringify ?w [] = Some (lit ''[]'')"
    by (simp add: example_world_def)
  have b: "outputReport ?w [] (DirString (lit ''/out''))
     = ([HandledError (lit ''Tools::UnableToFormatOutput'')], Resolved)"
    using outputReport_settles [of ?w "[]" "DirString (lit ''/out'')"] s' by simp
  have n: "stringify example_world [example_P1] = None"
    by (simp add: example_world_def)
  have d: "outputReport example_world [example_P1] NotAString
     = ([HandledError (lit ''Tools::UnableToFormatOutput'')], Resolved)"
    using outputReport_settles [of example_world "[example_P1]" NotAString] n c by simp
  have e: "snd (outputReport (example_world\<lparr>cwd := None\<rparr>) [] (DirString (lit ''/out'')))
             = Resolved"
    using outputReport_settles [of "example_world\<lparr>cwd := None\<rparr>" "[]"
        "DirString (lit ''/out'')"] by simp
  from a b d e show ?thesis by blast
qed

text \<open>
  The working directory is gone and no directory is given: \<open>process.cwd()\<close> throws
  before the \<open>try\<close> block, nothing is reported and the promise rejects.
\<close>

theorem outputReport_rejects_counterexample:
  "outputReport (example_world\<lparr>cwd := None\<rparr>) [] NotAString = ([], Rejected)"
  by (simp add: outputReport_def)

end
